theory Spec2Isabelle
  imports Complex_Main "HOL-Library.AList" "HOL-Library.Multiset"
begin

section \<open>Values and tables\<close>

text \<open>
  A float64 cell of a pandas table is a real number or missing: \<open>None\<close> is NaN, the
  value pandas writes for an empty CSV cell and for the first row of \<open>pct_change\<close>.
  Rounding and overflow of float64 are not modelled: arithmetic on present cells is that
  of the real numbers. The two divisions of the source that have no guard on the divisor
  return an \<open>fval\<close>, which adds the two infinities of IEEE division by zero.
\<close>

type_synonym cell = "real option"

datatype fval = Fin real | PInf | NInf | NaN

type_synonym date = nat

text \<open>
  The per-coin table of \<open>download_historical_data_coingecko\<close>: the columns \<open>date\<close>
  and \<open>price\<close>, and \<open>daily_return\<close> when the table has that column
  (\<open>save_combined_data\<close> asks \<open>'daily_return' in df.columns\<close>).
  \<open>len(df)\<close> is the number of rows, the length of the date column.
\<close>

record coin_df =
  df_date :: "date list"
  df_price :: "cell list"
  df_daily_return :: "cell list option"

definition len_df :: "coin_df \<Rightarrow> nat" where
  "len_df df = length (df_date df)"

text \<open>
  A combined table: the date column and the coin columns in insertion order. The coin
  symbols are upper-cased by the downloader, so none of them is the column name
  \<open>date\<close>; the date column is kept apart from the coin columns.
\<close>

record frame =
  f_date :: "date list"
  f_cols :: "(string \<times> cell list) list"

definition len_frame :: "frame \<Rightarrow> nat" where
  "len_frame f = length (f_date f)"

text \<open>\<open>combined_df[symbol] = column\<close>: replaces the column of that name, or appends it.\<close>

definition set_column :: "frame \<Rightarrow> string \<Rightarrow> cell list \<Rightarrow> frame" where
  "set_column f symbol col = f\<lparr>f_cols := AList.update symbol col (f_cols f)\<rparr>"

text \<open>The two CSV files that hand the aligned tables to the analysis scripts.\<close>

record storage =
  combined_prices :: "frame option"
  combined_returns :: "frame option"

section \<open>download\_historical\_data.py: save\_combined\_data\<close>

text \<open>
  \<open>historical_data\<close> is a Python dict: an association list in insertion order with
  distinct keys.
  \<^verbatim>\<open>
    for symbol, df in historical_data.items():
        if len(df) == len(combined_df):
            combined_df[symbol] = df['price']
  \<close>
\<close>

fun add_prices :: "(string \<times> coin_df) list \<Rightarrow> frame \<Rightarrow> frame" where
  "add_prices [] combined_df = combined_df"
| "add_prices ((symbol, df) # rest) combined_df =
     add_prices rest
       (if len_df df = len_frame combined_df
        then set_column combined_df symbol (df_price df)
        else combined_df)"

text \<open>
  \<^verbatim>\<open>
    for symbol, df in historical_data.items():
        if len(df) == len(combined_returns_df) and 'daily_return' in df.columns:
            combined_returns_df[symbol] = df['daily_return']
  \<close>
\<close>

fun add_returns :: "(string \<times> coin_df) list \<Rightarrow> frame \<Rightarrow> frame" where
  "add_returns [] combined_returns_df = combined_returns_df"
| "add_returns ((symbol, df) # rest) combined_returns_df =
     add_returns rest
       (case df_daily_return df of
          Some col \<Rightarrow>
            if len_df df = len_frame combined_returns_df
            then set_column combined_returns_df symbol col
            else combined_returns_df
        | None \<Rightarrow> combined_returns_df)"

text \<open>
  \<open>save_combined_data\<close> returns nothing; its effects are the two files and the log.
  On an empty dict it logs an error and returns; nothing is written and nothing is raised.
\<close>

definition save_combined_data ::
  "(string \<times> coin_df) list \<Rightarrow> storage \<Rightarrow> storage \<times> string list" where
  "save_combined_data historical_data st =
     (case historical_data of
        [] \<Rightarrow> (st, [''ERROR No historical data available to combine''])
      | (first_symbol, first_df) # _ \<Rightarrow>
          (let combined_df =
                 add_prices historical_data \<lparr>f_date = df_date first_df, f_cols = []\<rparr>;
               combined_returns_df =
                 add_returns historical_data \<lparr>f_date = df_date first_df, f_cols = []\<rparr>
           in (st\<lparr>combined_prices := Some combined_df,
                  combined_returns := Some combined_returns_df\<rparr>,
               [''INFO Successfully saved combined price data'',
                ''INFO Successfully saved combined daily returns''])))"

text \<open>
  \<open>load_combined_data\<close> of the analysis scripts: both files, or \<open>(None, None)\<close> when
  one is missing (the \<open>FileNotFoundError\<close> is caught). The analysis runs when the
  result is not \<open>None\<close>.
\<close>

definition load_combined_data :: "storage \<Rightarrow> (frame \<times> frame) option" where
  "load_combined_data st =
     (case combined_prices st of
        None \<Rightarrow> None
      | Some price_df \<Rightarrow>
          (case combined_returns st of
             None \<Rightarrow> None
           | Some returns_df \<Rightarrow> Some (price_df, returns_df)))"

section \<open>pandas operations used by the analysis scripts\<close>

datatype error = ZeroDivisionError | IndexError | KeyError

text \<open>The values of a column that are not NaN (\<open>skipna=True\<close>, the pandas default).\<close>

fun present :: "cell list \<Rightarrow> real list" where
  "present [] = []"
| "present (None # cs) = present cs"
| "present (Some x # cs) = x # present cs"

text \<open>\<open>Series.mean()\<close>: the mean of the present values, NaN when there is none.\<close>

definition mean_skipna :: "cell list \<Rightarrow> cell" where
  "mean_skipna col =
     (let xs = present col
      in if xs = [] then None else Some (sum_list xs / real (length xs)))"

text \<open>\<open>Series.std()\<close>: sample standard deviation (\<open>ddof=1\<close>) of the present values,
  NaN with fewer than two of them.\<close>

definition std_skipna :: "cell list \<Rightarrow> cell" where
  "std_skipna col =
     (let xs = present col; n = length xs
      in if n < 2 then None
         else (let m = sum_list xs / real n
               in Some (sqrt (sum_list (map (\<lambda>x. (x - m)\<^sup>2) xs) / real (n - 1)))))"

text \<open>\<open>(1 + returns_only).prod()\<close>: \<open>1 + NaN\<close> is NaN, and \<open>prod\<close> skips NaN.\<close>

definition add_one :: "cell list \<Rightarrow> cell list" where
  "add_one col = map (map_option (\<lambda>r. 1 + r)) col"

definition prod_skipna :: "cell list \<Rightarrow> real" where
  "prod_skipna col = prod_list (present col)"

text \<open>\<open>fillna(0)\<close> and \<open>cumprod()\<close>.\<close>

definition fillna0 :: "cell list \<Rightarrow> real list" where
  "fillna0 col = map (\<lambda>c. case c of None \<Rightarrow> 0 | Some r \<Rightarrow> r) col"

fun cumprod_from :: "real \<Rightarrow> real list \<Rightarrow> real list" where
  "cumprod_from acc [] = []"
| "cumprod_from acc (x # xs) = (acc * x) # cumprod_from (acc * x) xs"

definition cumprod :: "real list \<Rightarrow> real list" where
  "cumprod xs = cumprod_from 1 xs"

text \<open>\<open>iloc[-1]\<close>: the last row, \<open>IndexError\<close> on an empty table.\<close>

definition iloc_last :: "'a list \<Rightarrow> error + 'a" where
  "iloc_last xs = (if xs = [] then Inl IndexError else Inr (last xs))"

text \<open>
  \<open>base ** exponent\<close> on float64 with a positive exponent: NaN for a negative base
  unless the exponent is a whole number.
\<close>

definition float_pow :: "real \<Rightarrow> real \<Rightarrow> cell" where
  "float_pow base e =
     (if 0 \<le> base then Some (base powr e)
      else if e \<in> \<int> then Some (base powi \<lfloor>e\<rfloor>)
      else None)"

text \<open>
  Float division by a divisor that is never negative (a standard deviation, an absolute
  value): NaN propagates, \<open>0 / 0\<close> is NaN, and a non-zero value over zero is an infinity
  with the sign of the value. Nothing is raised.
\<close>

fun float_div :: "cell \<Rightarrow> cell \<Rightarrow> fval" where
  "float_div None _ = NaN"
| "float_div (Some a) None = NaN"
| "float_div (Some a) (Some b) =
     (if b \<noteq> 0 then Fin (a / b)
      else if a = 0 then NaN
      else if 0 < a then PInf else NInf)"

fun float_scale :: "fval \<Rightarrow> real \<Rightarrow> fval" where
  "float_scale (Fin x) k = Fin (x * k)"
| "float_scale PInf k = (if 0 < k then PInf else if k < 0 then NInf else NaN)"
| "float_scale NInf k = (if 0 < k then NInf else if k < 0 then PInf else NaN)"
| "float_scale NaN k = NaN"

text \<open>
  \<open>sort_values(by)\<close> with the default \<open>kind='quicksort'\<close>: the rows come back
  reordered, keys in order (ascending or descending) and the rows with a NaN key last.
  pandas promises no more for this sort: among rows with equal keys the order is
  whatever numpy's quicksort leaves. So the sort is a relation between the table and
  a result, not a function.
\<close>

fun key_order :: "bool \<Rightarrow> cell \<Rightarrow> cell \<Rightarrow> bool" where
  "key_order ascending (Some a) (Some b) = (if ascending then a \<le> b else b \<le> a)"
| "key_order ascending None (Some b) = False"
| "key_order ascending _ None = True"

definition sort_values :: "('r \<Rightarrow> cell) \<Rightarrow> bool \<Rightarrow> 'r list \<Rightarrow> 'r list \<Rightarrow> bool" where
  "sort_values by ascending rows out \<longleftrightarrow>
     mset out = mset rows \<and> sorted_wrt (key_order ascending) (map by out)"

text \<open>A boolean mask \<open>df[df[col] < threshold]\<close>: a comparison with NaN is false.\<close>

fun cell_less :: "cell \<Rightarrow> real \<Rightarrow> bool" where
  "cell_less None t = False"
| "cell_less (Some x) t = (x < t)"

text \<open>
  The invariants of a DataFrame read from a CSV file: distinct column names, and every
  column as long as the date column.
\<close>

definition wf_frame :: "frame \<Rightarrow> bool" where
  "wf_frame f \<longleftrightarrow>
     distinct (map fst (f_cols f)) \<and> list_all (\<lambda>(s, col). length col = length (f_date f)) (f_cols f)"

section \<open>analyze\_correlations.py\<close>

subsection \<open>calculate\_average\_changes\<close>

record summary_row =
  s_symbol :: string
  avg_daily_return :: cell
  std_daily_return :: cell
  cumulative_return :: real
  annualized_return :: cell
  sharpe_ratio :: fval

text \<open>\<^verbatim>\<open>cumulative_returns = (1 + returns_only).prod() - 1\<close>, for one column.\<close>

definition cumulative_returns :: "cell list \<Rightarrow> real" where
  "cumulative_returns col = prod_skipna (add_one col) - 1"

text \<open>
  One row of \<open>summary_df\<close>:
  \<^verbatim>\<open>
    annualized_returns = (1 + cumulative_returns) ** (365 / days_count) - 1
    sharpe_ratio = avg_daily_returns / std_daily_returns * np.sqrt(365)
  \<close>
\<close>

definition summary_of :: "nat \<Rightarrow> string \<times> cell list \<Rightarrow> summary_row" where
  "summary_of days_count sc =
     (let avg = mean_skipna (snd sc);
          std = std_skipna (snd sc);
          cum = cumulative_returns (snd sc)
      in \<lparr>s_symbol = fst sc,
          avg_daily_return = avg,
          std_daily_return = std,
          cumulative_return = cum,
          annualized_return =
            map_option (\<lambda>p. p - 1) (float_pow (1 + cum) (365 / real days_count)),
          sharpe_ratio = float_scale (float_div avg std) (sqrt 365)\<rparr>)"

text \<open>The table before it is sorted; \<open>365 / days_count\<close> raises on a table of no rows.\<close>

definition summary_rows :: "frame \<Rightarrow> error + summary_row list" where
  "summary_rows returns_df =
     (let days_count = len_frame returns_df
      in if days_count = 0 then Inl ZeroDivisionError
         else Inr (map (summary_of days_count) (f_cols returns_df)))"

text \<open>\<^verbatim>\<open>summary_df.sort_values('annualized_return', ascending=False)\<close>: the function
  relates the return table to each result the sort may give.\<close>

definition calculate_average_changes :: "frame \<Rightarrow> error + summary_row list \<Rightarrow> bool" where
  "calculate_average_changes returns_df result =
     (case summary_rows returns_df of
        Inl e \<Rightarrow> result = Inl e
      | Inr rows \<Rightarrow>
          (case result of
             Inl e \<Rightarrow> False
           | Inr summary_df \<Rightarrow> sort_values annualized_return False rows summary_df))"

subsection \<open>create\_correlation\_matrix\<close>

text \<open>
  \<open>returns_only.corr()\<close>: Pearson correlation of each pair of columns over the rows
  where both have a value (\<open>min_periods=1\<close>). The cell is NaN when there is no such row
  or when the divisor, the root of the product of the two sums of squared deviations,
  is zero. Recent pandas also clips the quotient to \<open>[-1, 1]\<close>; over the reals the
  quotient is already there (\<open>pearson_bounds\<close> below).
\<close>

fun complete_pairs :: "cell list \<Rightarrow> cell list \<Rightarrow> (real \<times> real) list" where
  "complete_pairs (Some x # cx) (Some y # cy) = (x, y) # complete_pairs cx cy"
| "complete_pairs (x # cx) (y # cy) = complete_pairs cx cy"
| "complete_pairs cx cy = []"

definition deviations :: "real list \<Rightarrow> real list" where
  "deviations xs = map (\<lambda>x. x - sum_list xs / real (length xs)) xs"

definition dot :: "real list \<Rightarrow> real list \<Rightarrow> real" where
  "dot xs ys = sum_list (map2 (*) xs ys)"

definition pearson :: "cell list \<Rightarrow> cell list \<Rightarrow> cell" where
  "pearson cx cy =
     (let ps = complete_pairs cx cy;
          dx = deviations (map fst ps);
          dy = deviations (map snd ps);
          divisor = sqrt (dot dx dx * dot dy dy)
      in if ps = [] then None
         else if divisor \<noteq> 0 then Some (dot dx dy / divisor)
         else None)"

text \<open>The matrix is a table with one column per coin; its rows are labelled by the
  coins in the same order.\<close>

type_synonym corr_matrix = "(string \<times> cell list) list"

definition create_correlation_matrix :: "frame \<Rightarrow> corr_matrix" where
  "create_correlation_matrix returns_df =
     map (\<lambda>(sj, cj). (sj, map (\<lambda>(si, ci). pearson ci cj) (f_cols returns_df)))
       (f_cols returns_df)"

text \<open>\<open>corr[i][j]\<close>: row \<open>i\<close> of column \<open>j\<close>.\<close>

definition corr_at :: "corr_matrix \<Rightarrow> nat \<Rightarrow> nat \<Rightarrow> cell" where
  "corr_at m i j = snd (m ! j) ! i"

subsection \<open>identify\_uncorrelated\_coins\<close>

record avg_corr_row =
  a_symbol :: string
  avg_correlation :: cell

text \<open>\<open>corr_matrix[coin].drop(coin)\<close>: the column without the rows labelled \<open>coin\<close>.\<close>

definition drop_label :: "string list \<Rightarrow> cell list \<Rightarrow> string \<Rightarrow> cell list" where
  "drop_label labels col coin = map snd (filter (\<lambda>(l, v). l \<noteq> coin) (zip labels col))"

text \<open>The dict \<open>avg_correlations\<close> as rows of \<open>avg_corr_df\<close>: the column names of a
  correlation matrix are distinct, so there is one entry per column, in column order.\<close>

definition avg_correlations :: "corr_matrix \<Rightarrow> avg_corr_row list" where
  "avg_correlations corr_matrix =
     map (\<lambda>(coin, col).
            \<lparr>a_symbol = coin,
             avg_correlation = mean_skipna (drop_label (map fst corr_matrix) col coin)\<rparr>)
       corr_matrix"

text \<open>
  \<^verbatim>\<open>
    avg_corr_df = avg_corr_df.sort_values('avg_correlation')
    uncorrelated_coins = avg_corr_df[avg_corr_df['avg_correlation'] < threshold]
  \<close>
  The result is the sorted table that is saved and the filtered table that is returned.
\<close>

definition identify_uncorrelated_coins ::
  "corr_matrix \<Rightarrow> real \<Rightarrow> avg_corr_row list \<times> avg_corr_row list \<Rightarrow> bool" where
  "identify_uncorrelated_coins corr_matrix threshold result =
     (case result of
        (avg_corr_df, uncorrelated_coins) \<Rightarrow>
          sort_values avg_correlation True (avg_correlations corr_matrix) avg_corr_df \<and>
          uncorrelated_coins =
            filter (\<lambda>r. cell_less (avg_correlation r) threshold) avg_corr_df)"

text \<open>The default of both \<open>threshold\<close> parameters.\<close>

definition default_threshold :: real where
  "default_threshold = 3 / 10"

section \<open>analyze\_price\_distance.py\<close>

subsection \<open>calculate\_market\_average\<close>

record market_df =
  m_date :: "date list"
  market_avg_return :: "cell list"

text \<open>\<open>returns_only.mean(axis=1)\<close>: for each row, the mean over the coin columns.\<close>

definition calculate_market_average :: "frame \<Rightarrow> market_df" where
  "calculate_market_average returns_df =
     \<lparr>m_date = f_date returns_df,
      market_avg_return =
        map (\<lambda>i. mean_skipna (map (\<lambda>(s, col). col ! i) (f_cols returns_df)))
          [0 ..< len_frame returns_df]\<rparr>"

subsection \<open>calculate\_price\_distance\<close>

record distance_row =
  d_symbol :: string
  d_cumulative_return :: real
  price_distance :: real
  market_return :: real
  relative_distance :: fval

record cum_frame =
  c_date :: "date list"
  c_cols :: "(string \<times> real list) list"

text \<open>\<^verbatim>\<open>(1 + returns_only[coin].fillna(0)).cumprod() - 1\<close>\<close>

definition cumulative_series :: "cell list \<Rightarrow> real list" where
  "cumulative_series col = map (\<lambda>p. p - 1) (cumprod (map (\<lambda>r. 1 + r) (fillna0 col)))"

text \<open>
  The distance table before it is sorted, with \<open>cum_returns_df\<close> and
  \<open>market_cum_return\<close>. \<open>iloc[-1]\<close> raises on a table of no rows.
  \<^verbatim>\<open>
    price_distance[coin] = abs(final_cum_returns[coin] - final_market_return)
    distance_df['relative_distance'] = distance_df['price_distance'] / abs(final_market_return)
  \<close>
\<close>

definition distance_row_of :: "real \<Rightarrow> string \<times> real list \<Rightarrow> distance_row" where
  "distance_row_of final_market_return sc =
     (let final_cum_return = last (snd sc);
          distance = \<bar>final_cum_return - final_market_return\<bar>
      in \<lparr>d_symbol = fst sc,
          d_cumulative_return = final_cum_return,
          price_distance = distance,
          market_return = final_market_return,
          relative_distance = float_div (Some distance) (Some \<bar>final_market_return\<bar>)\<rparr>)"

definition distance_rows ::
  "frame \<Rightarrow> market_df \<Rightarrow> error + distance_row list \<times> cum_frame \<times> real list" where
  "distance_rows returns_df market_avg_df =
     (let cum_returns_df =
            \<lparr>c_date = f_date returns_df,
             c_cols = map (\<lambda>(coin, col). (coin, cumulative_series col)) (f_cols returns_df)\<rparr>;
          market_cum_return = cumulative_series (market_avg_return market_avg_df)
      in if c_date cum_returns_df = [] then Inl IndexError
         else (case iloc_last market_cum_return of
                 Inl e \<Rightarrow> Inl e
               | Inr final_market_return \<Rightarrow>
                   Inr (map (distance_row_of final_market_return) (c_cols cum_returns_df),
                        cum_returns_df, market_cum_return)))"

text \<open>
  \<^verbatim>\<open>
    distance_df = distance_df.sort_values('price_distance', ascending=False)
    out_of_threshold = distance_df[distance_df['price_distance'] > threshold]
    return distance_df, out_of_threshold, cum_returns_df, market_cum_return
  \<close>
\<close>

definition calculate_price_distance ::
  "frame \<Rightarrow> market_df \<Rightarrow> real \<Rightarrow>
   error + distance_row list \<times> distance_row list \<times> cum_frame \<times> real list \<Rightarrow> bool" where
  "calculate_price_distance returns_df market_avg_df threshold result =
     (case distance_rows returns_df market_avg_df of
        Inl e \<Rightarrow> result = Inl e
      | Inr (rows, cum_returns_df, market_cum_return) \<Rightarrow>
          (case result of
             Inl e \<Rightarrow> False
           | Inr (distance_df, out_of_threshold, cum_returns_df', market_cum_return') \<Rightarrow>
               sort_values (\<lambda>r. Some (price_distance r)) False rows distance_df \<and>
               out_of_threshold = filter (\<lambda>r. threshold < price_distance r) distance_df \<and>
               cum_returns_df' = cum_returns_df \<and>
               market_cum_return' = market_cum_return))"

subsection \<open>generate\_comparison\_data\<close>

record coin_entry =
  ce_name :: string
  ce_data :: "real list"
  ce_cumulative_return :: real
  ce_price_distance :: real
  ce_relative_distance :: fval

record comparison_data =
  dates :: "date list"
  market_avg :: "real list"
  coins :: "(string \<times> coin_entry) list"

text \<open>
  \<^verbatim>\<open>
    for _, row in out_of_threshold.iterrows():
        symbol = row['symbol']
        comparison_data['coins'][symbol] = {..., 'data': cum_returns_df[symbol].tolist(), ...}
  \<close>
  \<open>cum_returns_df[symbol]\<close> raises \<open>KeyError\<close> for a symbol that is not a column.
\<close>

fun add_coins ::
  "cum_frame \<Rightarrow> distance_row list \<Rightarrow> (string \<times> coin_entry) list
   \<Rightarrow> error + (string \<times> coin_entry) list" where
  "add_coins cum_returns_df [] coins_dict = Inr coins_dict"
| "add_coins cum_returns_df (row # rest) coins_dict =
     (case map_of (c_cols cum_returns_df) (d_symbol row) of
        None \<Rightarrow> Inl KeyError
      | Some series \<Rightarrow>
          add_coins cum_returns_df rest
            (AList.update (d_symbol row)
               \<lparr>ce_name = d_symbol row,
                ce_data = series,
                ce_cumulative_return = d_cumulative_return row,
                ce_price_distance = price_distance row,
                ce_relative_distance = relative_distance row\<rparr>
               coins_dict))"

definition generate_comparison_data ::
  "cum_frame \<Rightarrow> real list \<Rightarrow> distance_row list \<Rightarrow> error + comparison_data" where
  "generate_comparison_data cum_returns_df market_cum_return out_of_threshold =
     (case add_coins cum_returns_df out_of_threshold [] of
        Inl e \<Rightarrow> Inl e
      | Inr coins_dict \<Rightarrow>
          Inr \<lparr>dates = c_date cum_returns_df,
               market_avg = market_cum_return,
               coins = coins_dict\<rparr>)"

section \<open>The market return in the words of the specification\<close>

text \<open>
  The market return as the specification words it, to be compared with
  \<open>calculate_market_average\<close>: the assets that have a return on date \<open>i\<close>, each with
  that return, and the mean of these returns; undefined when there is no such asset.
\<close>

definition spec_market_return :: "frame \<Rightarrow> nat \<Rightarrow> cell" where
  "spec_market_return returns_df i =
     (let present_assets =
            {(s, r). \<exists>col. (s, col) \<in> set (f_cols returns_df) \<and> col ! i = Some r}
      in if present_assets = {} then None
         else Some ((\<Sum>(s, r) \<in> present_assets. r) / real (card present_assets)))"

section \<open>Example tables\<close>

text \<open>Example inputs: a five-day reference coin and a coin with four rows; a storage
  with no file and one with an earlier snapshot.\<close>

definition ex_btc :: coin_df where
  "ex_btc = \<lparr>df_date = [0, 1, 2, 3, 4],
             df_price = [Some 100, Some 101, Some 102, Some 103, Some 104],
             df_daily_return = Some [None, Some (1/100), Some (1/101), Some (1/102), Some (1/103)]\<rparr>"

definition ex_xrp :: coin_df where
  "ex_xrp = \<lparr>df_date = [1, 2, 3, 4],
             df_price = [Some 50, Some 49, Some 48, Some 47],
             df_daily_return = Some [None, Some (- 1/50), Some (- 1/49), Some (- 1/48)]\<rparr>"

definition no_files :: storage where
  "no_files = \<lparr>combined_prices = None, combined_returns = None\<rparr>"

definition ex_snapshot :: storage where
  "ex_snapshot =
     \<lparr>combined_prices = Some \<lparr>f_date = [0, 1], f_cols = [(''BTC'', [Some 100, Some 101])]\<rparr>,
      combined_returns = Some \<lparr>f_date = [0, 1], f_cols = [(''BTC'', [None, Some (1/100)])]\<rparr>\<rparr>"

text \<open>Example return tables and a correlation matrix.\<close>

definition ex_single :: frame where
  "ex_single = \<lparr>f_date = [0, 1, 2], f_cols = [(''BTC'', [None, Some (1/2), Some (1/2)])]\<rparr>"

definition ex_pair :: frame where
  "ex_pair = \<lparr>f_date = [0, 1, 2],
              f_cols = [(''BBB'', [None, Some 1, None]),
                        (''AAA'', [None, Some (1/10), Some (1/10)])]\<rparr>"

definition ex_pair_cum :: cum_frame where
  "ex_pair_cum = \<lparr>c_date = [0, 1, 2],
                  c_cols = [(''BBB'', [0, 1, 1]), (''AAA'', [0, 1/10, 21/100])]\<rparr>"

definition ex_row_a :: distance_row where
  "ex_row_a = \<lparr>d_symbol = ''AAA'', d_cumulative_return = 21/100, price_distance = 99/200,
               market_return = 141/200, relative_distance = Fin (99/141)\<rparr>"

definition ex_row_b :: distance_row where
  "ex_row_b = \<lparr>d_symbol = ''BBB'', d_cumulative_return = 1, price_distance = 59/200,
               market_return = 141/200, relative_distance = Fin (59/141)\<rparr>"

definition ex_corr :: corr_matrix where
  "ex_corr = [(''AAA'', [Some 1, Some (3/10), Some (1/10)]),
              (''BBB'', [Some (3/10), Some 1, Some (1/2)]),
              (''CCC'', [Some (1/10), Some (1/2), Some 1])]"





text \<open>The two-asset scenario of the specification: the second asset has no return on
  the second day.\<close>

definition ex_market :: frame where
  "ex_market = \<lparr>f_date = [0, 1],
                f_cols = [(''AAA'', [Some (1/10), Some (1/5)]), (''BBB'', [Some 0, None])]\<rparr>"

text \<open>An asset of constant price beside one that moves.\<close>

definition ex_const :: frame where
  "ex_const = \<lparr>f_date = [0, 1, 2],
               f_cols = [(''AAA'', [None, Some (1/100), Some (1/50)]),
                         (''CCC'', [None, Some 0, Some 0])]\<rparr>"

section \<open>Facts about the alignment\<close>

lemma add_prices_date: "f_date (add_prices xs F) = f_date F"
  by (induction xs arbitrary: F) (auto simp: set_column_def)

lemma add_returns_date: "f_date (add_returns xs F) = f_date F"
  by (induction xs arbitrary: F) (auto simp: set_column_def split: option.splits)

lemma add_prices_lookup:
  "distinct (map fst xs) \<Longrightarrow>
   map_of (f_cols (add_prices xs F)) k =
     (case map_of xs k of
        Some df \<Rightarrow> if len_df df = len_frame F then Some (df_price df) else map_of (f_cols F) k
      | None \<Rightarrow> map_of (f_cols F) k)"
proof (induction xs arbitrary: F)
  case Nil
  show ?case by simp
next
  case (Cons x xs)
  obtain s df where x: "x = (s, df)" by (cases x)
  from Cons.prems x have d: "distinct (map fst xs)" and s: "s \<notin> fst ` set xs"
    by auto
  from s have none: "map_of xs s = None"
    by (simp add: map_of_eq_None_iff)
  show ?case
    using Cons.IH [OF d] none
    by (auto simp: x set_column_def len_frame_def update_conv' split: option.splits)
qed

lemma add_returns_lookup:
  "distinct (map fst xs) \<Longrightarrow>
   map_of (f_cols (add_returns xs F)) k =
     (case map_of xs k of
        Some df \<Rightarrow>
          (case df_daily_return df of
             Some col \<Rightarrow> if len_df df = len_frame F then Some col else map_of (f_cols F) k
           | None \<Rightarrow> map_of (f_cols F) k)
      | None \<Rightarrow> map_of (f_cols F) k)"
proof (induction xs arbitrary: F)
  case Nil
  show ?case by simp
next
  case (Cons x xs)
  obtain s df where x: "x = (s, df)" by (cases x)
  from Cons.prems x have d: "distinct (map fst xs)" and s: "s \<notin> fst ` set xs"
    by auto
  from s have none: "map_of xs s = None"
    by (simp add: map_of_eq_None_iff)
  show ?case
    using Cons.IH [OF d] none
    by (auto simp: x set_column_def len_frame_def update_conv' split: option.splits)
qed

lemma save_combined_data_Cons:
  "save_combined_data ((s, d) # rest) st =
     (st\<lparr>combined_prices := Some (add_prices ((s, d) # rest) \<lparr>f_date = df_date d, f_cols = []\<rparr>),
         combined_returns := Some (add_returns ((s, d) # rest) \<lparr>f_date = df_date d, f_cols = []\<rparr>)\<rparr>,
      [''INFO Successfully saved combined price data'',
       ''INFO Successfully saved combined daily returns''])"
  by (simp add: save_combined_data_def)

lemma map_of_in_keys: "(map_of xs k \<noteq> None) = (k \<in> fst ` set xs)"
  by (simp add: map_of_eq_None_iff)

text \<open>
  C2: every asset of the input mapping has a column in the aligned price table exactly
  when its number of rows equals the length of the reference date axis, and that column is
  then its price column as it is; an asset of another length has no column in the aligned
  price table and none in the aligned return table. The function has no failing branch: it
  returns the new storage and the log.
\<close>

theorem C2_column_iff_same_length:
  assumes "distinct (map fst historical_data)"
    and "(symbol, df) \<in> set historical_data"
    and "save_combined_data historical_data st = (st', msgs)"
  shows "\<exists>P R. combined_prices st' = Some P \<and> combined_returns st' = Some R \<and>
           f_date P = df_date (snd (hd historical_data)) \<and>
           (symbol \<in> fst ` set (f_cols P)) = (len_df df = length (f_date P)) \<and>
           (len_df df = length (f_date P) \<longrightarrow> map_of (f_cols P) symbol = Some (df_price df)) \<and>
           (len_df df \<noteq> length (f_date P) \<longrightarrow>
              symbol \<notin> fst ` set (f_cols P) \<and> symbol \<notin> fst ` set (f_cols R))"
proof -
  from assms(2) obtain s d rest where hd: "historical_data = (s, d) # rest"
    by (cases historical_data) auto
  define P where "P = add_prices historical_data \<lparr>f_date = df_date d, f_cols = []\<rparr>"
  define R where "R = add_returns historical_data \<lparr>f_date = df_date d, f_cols = []\<rparr>"
  from assms(3) have st': "combined_prices st' = Some P" "combined_returns st' = Some R"
    by (auto simp: hd save_combined_data_Cons P_def R_def)
  have look: "map_of historical_data symbol = Some df"
    using assms(1,2) by simp
  have dP: "f_date P = df_date d"
    by (simp add: P_def add_prices_date)
  have mP: "map_of (f_cols P) symbol =
              (if len_df df = length (df_date d) then Some (df_price df) else None)"
    unfolding P_def by (simp add: add_prices_lookup [OF assms(1)] look len_frame_def)
  have mR: "len_df df \<noteq> length (df_date d) \<Longrightarrow> map_of (f_cols R) symbol = None"
    unfolding R_def
    by (simp add: add_returns_lookup [OF assms(1)] look len_frame_def split: option.splits)
  have inP: "(symbol \<in> fst ` set (f_cols P)) = (len_df df = length (df_date d))"
    using mP map_of_in_keys [of "f_cols P" symbol] by (simp split: if_splits)
  have inR: "len_df df \<noteq> length (df_date d) \<Longrightarrow> symbol \<notin> fst ` set (f_cols R)"
    using mR map_of_in_keys [of "f_cols R" symbol] by simp
  show ?thesis
    using st' dP mP inP inR by (simp add: hd)
qed

theorem C2_witness:
  "distinct (map fst [(''BTC'', ex_btc), (''XRP'', ex_xrp)]) \<and>
   (''XRP'', ex_xrp) \<in> set [(''BTC'', ex_btc), (''XRP'', ex_xrp)] \<and>
   len_df ex_xrp = 4 \<and>
   (\<exists>P R. combined_prices (fst (save_combined_data [(''BTC'', ex_btc), (''XRP'', ex_xrp)] no_files)) = Some P \<and>
          combined_returns (fst (save_combined_data [(''BTC'', ex_btc), (''XRP'', ex_xrp)] no_files)) = Some R \<and>
          length (f_date P) = 5 \<and>
          ''XRP'' \<notin> fst ` set (f_cols P) \<and> ''XRP'' \<notin> fst ` set (f_cols R))"
proof -
  have d: "distinct (map fst [(''BTC'', ex_btc), (''XRP'', ex_xrp)])" by simp
  have m: "(''XRP'', ex_xrp) \<in> set [(''BTC'', ex_btc), (''XRP'', ex_xrp)]" by simp
  have l: "len_df ex_xrp = 4" by (simp add: len_df_def ex_xrp_def)
  have r: "length (df_date ex_btc) = 5" by (simp add: ex_btc_def)
  from C2_column_iff_same_length [where st = no_files, OF d m surjective_pairing]
  obtain P R where
    "combined_prices (fst (save_combined_data [(''BTC'', ex_btc), (''XRP'', ex_xrp)] no_files)) = Some P"
    "combined_returns (fst (save_combined_data [(''BTC'', ex_btc), (''XRP'', ex_xrp)] no_files)) = Some R"
    "f_date P = df_date (snd (hd [(''BTC'', ex_btc), (''XRP'', ex_xrp)]))"
    "len_df ex_xrp \<noteq> length (f_date P) \<longrightarrow>
       ''XRP'' \<notin> fst ` set (f_cols P) \<and> ''XRP'' \<notin> fst ` set (f_cols R)"
    by blast
  then show ?thesis
    using d l r by auto
qed

lemma reference_asset_lookup:
  assumes "distinct (map fst ((first_symbol, first_df) # rest))"
  shows "map_of (f_cols (add_prices ((first_symbol, first_df) # rest)
                   \<lparr>f_date = df_date first_df, f_cols = []\<rparr>)) first_symbol
           = Some (df_price first_df)"
    and "map_of (f_cols (add_returns ((first_symbol, first_df) # rest)
                   \<lparr>f_date = df_date first_df, f_cols = []\<rparr>)) first_symbol
           = df_daily_return first_df"
proof -
  let ?hd = "(first_symbol, first_df) # rest"
  let ?F = "\<lparr>f_date = df_date first_df, f_cols = []\<rparr>"
  show "map_of (f_cols (add_prices ?hd ?F)) first_symbol = Some (df_price first_df)"
    unfolding add_prices_lookup [OF assms] by (simp add: len_frame_def len_df_def)
  show "map_of (f_cols (add_returns ?hd ?F)) first_symbol = df_daily_return first_df"
    unfolding add_returns_lookup [OF assms]
    by (simp add: len_frame_def len_df_def split: option.splits)
qed

text \<open>
  C9: for a non-empty input mapping whose reference asset, the first one in iteration
  order, has a \<open>daily_return\<close> column, as every table that the downloader builds or
  reloads has (\<open>pct_change\<close> is stored before the table is saved), the reference asset has
  its price column in the aligned price table and its return column in the aligned return
  table; both tables are on its date axis, and both have at least one asset column.
\<close>

theorem C9_reference_asset_in_both_tables:
  assumes "distinct (map fst ((first_symbol, first_df) # rest))"
    and "df_daily_return first_df = Some col"
    and "save_combined_data ((first_symbol, first_df) # rest) st = (st', msgs)"
  shows "\<exists>P R. combined_prices st' = Some P \<and> combined_returns st' = Some R \<and>
           f_date P = df_date first_df \<and> f_date R = df_date first_df \<and>
           first_symbol \<in> fst ` set (f_cols P) \<and>
           first_symbol \<in> fst ` set (f_cols R) \<and>
           map_of (f_cols P) first_symbol = Some (df_price first_df) \<and>
           map_of (f_cols R) first_symbol = Some col \<and>
           f_cols P \<noteq> [] \<and> f_cols R \<noteq> []"
proof -
  let ?hd = "(first_symbol, first_df) # rest"
  let ?F = "\<lparr>f_date = df_date first_df, f_cols = []\<rparr>"
  define P where "P = add_prices ?hd ?F"
  define R where "R = add_returns ?hd ?F"
  from assms(3) have st': "combined_prices st' = Some P" "combined_returns st' = Some R"
    by (auto simp: save_combined_data_Cons P_def R_def)
  have dP: "f_date P = df_date first_df"
    unfolding P_def add_prices_date by simp
  have dR: "f_date R = df_date first_df"
    unfolding R_def add_returns_date by simp
  have mP: "map_of (f_cols P) first_symbol = Some (df_price first_df)"
    unfolding P_def by (rule reference_asset_lookup(1) [OF assms(1)])
  have mR: "map_of (f_cols R) first_symbol = Some col"
    unfolding R_def using reference_asset_lookup(2) [OF assms(1)] assms(2) by simp
  have inP: "first_symbol \<in> fst ` set (f_cols P)"
    using mP map_of_in_keys [of "f_cols P" first_symbol] by simp
  have inR: "first_symbol \<in> fst ` set (f_cols R)"
    using mR map_of_in_keys [of "f_cols R" first_symbol] by simp
  from inP have neP: "f_cols P \<noteq> []" by auto
  from inR have neR: "f_cols R \<noteq> []" by auto
  from st' dP dR inP inR mP mR neP neR show ?thesis by blast
qed

theorem C9_witness:
  "distinct (map fst [(''BTC'', ex_btc), (''XRP'', ex_xrp)]) \<and>
   df_daily_return ex_btc = Some [None, Some (1/100), Some (1/101), Some (1/102), Some (1/103)] \<and>
   (\<exists>P R. combined_prices (fst (save_combined_data [(''BTC'', ex_btc), (''XRP'', ex_xrp)] no_files)) = Some P \<and>
          combined_returns (fst (save_combined_data [(''BTC'', ex_btc), (''XRP'', ex_xrp)] no_files)) = Some R \<and>
          ''BTC'' \<in> fst ` set (f_cols P) \<and> ''BTC'' \<in> fst ` set (f_cols R) \<and>
          map_of (f_cols P) ''BTC'' = Some (df_price ex_btc) \<and>
          map_of (f_cols R) ''BTC''
            = Some [None, Some (1/100), Some (1/101), Some (1/102), Some (1/103)] \<and>
          f_cols P \<noteq> [] \<and> f_cols R \<noteq> [])"
proof -
  have d: "distinct (map fst [(''BTC'', ex_btc), (''XRP'', ex_xrp)])" by simp
  have r: "df_daily_return ex_btc
             = Some [None, Some (1/100), Some (1/101), Some (1/102), Some (1/103)]"
    by (simp add: ex_btc_def)
  from C9_reference_asset_in_both_tables [where st = no_files, OF d r surjective_pairing]
  show ?thesis
    using d r by blast
qed

text \<open>
  C7 (as the code has it): on an empty input mapping \<open>save_combined_data\<close> logs an error
  and returns normally; it raises nothing and writes nothing, so the storage, and with it
  what \<open>load_combined_data\<close> gives the analysis scripts, is what it was before the call.
\<close>

theorem C7_empty_mapping_logs_and_returns:
  "save_combined_data [] st = (st, [''ERROR No historical data available to combine'']) \<and>
   load_combined_data (fst (save_combined_data [] st)) = load_combined_data st"
  by (simp add: save_combined_data_def)

text \<open>
  C7 as stated fails: with an earlier snapshot in storage, the call on the empty mapping
  returns with the storage untouched, and the analysis scripts load that snapshot and run.
\<close>

theorem C7_counterexample:
  "save_combined_data [] ex_snapshot
     = (ex_snapshot, [''ERROR No historical data available to combine'']) \<and>
   load_combined_data (fst (save_combined_data [] ex_snapshot)) \<noteq> None"
  by (simp add: save_combined_data_def load_combined_data_def ex_snapshot_def)

section \<open>Facts about the analysis\<close>

subsection \<open>Compounding\<close>

lemma prod_skipna_add_one:
  "prod_skipna (add_one col) = prod_list (map (\<lambda>r. 1 + r) (fillna0 col))"
proof (induction col)
  case Nil
  show ?case by (simp add: prod_skipna_def add_one_def fillna0_def)
next
  case (Cons c col)
  then show ?case
    by (cases c) (simp_all add: prod_skipna_def add_one_def fillna0_def)
qed

lemma last_cumprod_from: "xs \<noteq> [] \<Longrightarrow> last (cumprod_from acc xs) = acc * prod_list xs"
proof (induction xs arbitrary: acc)
  case Nil
  then show ?case by simp
next
  case (Cons x xs)
  show ?case
  proof (cases xs)
    case Nil
    then show ?thesis by simp
  next
    case (Cons y ys)
    then have "xs \<noteq> []" by simp
    from Cons.IH [OF this, of "acc * x"] Cons show ?thesis by (simp add: mult.assoc)
  qed
qed

lemma length_cumprod_from: "length (cumprod_from acc xs) = length xs"
  by (induction xs arbitrary: acc) auto

lemma length_cumulative_series: "length (cumulative_series col) = length col"
  by (simp add: cumulative_series_def cumprod_def length_cumprod_from fillna0_def)

lemma last_cumulative_series:
  assumes "col \<noteq> []"
  shows "last (cumulative_series col) = prod_list (map (\<lambda>r. 1 + r) (fillna0 col)) - 1"
proof -
  let ?xs = "map (\<lambda>r. 1 + r) (fillna0 col)"
  from assms have xs: "?xs \<noteq> []"
    by (simp add: fillna0_def)
  then have "length (cumprod_from 1 ?xs) \<noteq> 0"
    by (simp only: length_cumprod_from) simp
  then have ne: "cumprod_from 1 ?xs \<noteq> []"
    by (simp only: length_0_conv not_False_eq_True)
  have "last (cumulative_series col) = last (cumprod_from 1 ?xs) - 1"
    unfolding cumulative_series_def cumprod_def using ne by (rule last_map)
  also have "last (cumprod_from 1 ?xs) = prod_list ?xs"
    using last_cumprod_from [OF xs, of 1] by simp
  finally show ?thesis .
qed

lemma wf_frame_length:
  "wf_frame f \<Longrightarrow> (s, col) \<in> set (f_cols f) \<Longrightarrow> length col = length (f_date f)"
  by (auto simp: wf_frame_def list_all_iff)

lemma length_market_avg_return:
  "length (market_avg_return (calculate_market_average f)) = length (f_date f)"
  by (simp add: calculate_market_average_def len_frame_def)

lemma sort_values_mset: "sort_values by ascending rows out \<Longrightarrow> mset out = mset rows"
  by (simp add: sort_values_def)

lemma sort_values_mset_map:
  "sort_values by ascending rows out \<Longrightarrow> mset (map f out) = mset (map f rows)"
  by (metis sort_values_mset mset_map)

lemma summary_of_cumulative:
  "cumulative_return (summary_of n sc) =
     prod_list (map (\<lambda>c. 1 + (case c of None \<Rightarrow> 0 | Some r \<Rightarrow> r)) (snd sc)) - 1"
  by (simp add: summary_of_def Let_def cumulative_returns_def prod_skipna_add_one fillna0_def
      comp_def)

lemma distance_row_of_cumulative:
  "col \<noteq> [] \<Longrightarrow>
   d_cumulative_return (distance_row_of m (s, cumulative_series col)) =
     prod_list (map (\<lambda>c. 1 + (case c of None \<Rightarrow> 0 | Some r \<Rightarrow> r)) col) - 1"
  by (simp add: distance_row_of_def Let_def last_cumulative_series fillna0_def comp_def)

lemma distance_rows_Inr:
  assumes "f_date returns_df \<noteq> []"
    and "length (market_avg_return market_avg_df) = length (f_date returns_df)"
  shows "distance_rows returns_df market_avg_df =
     Inr (map (distance_row_of (last (cumulative_series (market_avg_return market_avg_df))))
            (map (\<lambda>(coin, col). (coin, cumulative_series col)) (f_cols returns_df)),
          \<lparr>c_date = f_date returns_df,
           c_cols = map (\<lambda>(coin, col). (coin, cumulative_series col)) (f_cols returns_df)\<rparr>,
          cumulative_series (market_avg_return market_avg_df))"
proof -
  have "length (cumulative_series (market_avg_return market_avg_df)) \<noteq> 0"
    using assms by (simp add: length_cumulative_series)
  then have "cumulative_series (market_avg_return market_avg_df) \<noteq> []"
    by (simp only: length_0_conv not_False_eq_True)
  then show ?thesis
    using assms(1) by (simp add: distance_rows_def iloc_last_def Let_def)
qed

subsection \<open>The example tables, evaluated\<close>

lemma ex_pair_rows: "distance_rows ex_pair (calculate_market_average ex_pair) =
   Inr ([ex_row_b, ex_row_a], ex_pair_cum, [0, 11/20, 141/200])"
  by (simp add: distance_rows_def calculate_market_average_def ex_pair_def len_frame_def mean_skipna_def upt_rec
    cumulative_series_def cumprod_def fillna0_def iloc_last_def distance_row_of_def ex_row_a_def ex_row_b_def ex_pair_cum_def)

lemma ex_pair_pd: "calculate_price_distance ex_pair (calculate_market_average ex_pair) default_threshold
   (Inr ([ex_row_a, ex_row_b], [ex_row_a], ex_pair_cum, [0, 11/20, 141/200]))"
  by (simp add: calculate_price_distance_def ex_pair_rows sort_values_def default_threshold_def)
     (simp add: ex_row_a_def ex_row_b_def)

lemma ex_corr_avg: "avg_correlations ex_corr =
   [\<lparr>a_symbol = ''AAA'', avg_correlation = Some (1/5)\<rparr>,
    \<lparr>a_symbol = ''BBB'', avg_correlation = Some (2/5)\<rparr>,
    \<lparr>a_symbol = ''CCC'', avg_correlation = Some (3/10)\<rparr>]"
  by (simp add: avg_correlations_def ex_corr_def drop_label_def mean_skipna_def)

lemma ex_corr_id: "identify_uncorrelated_coins ex_corr default_threshold
   ([\<lparr>a_symbol = ''AAA'', avg_correlation = Some (1/5)\<rparr>,
     \<lparr>a_symbol = ''CCC'', avg_correlation = Some (3/10)\<rparr>,
     \<lparr>a_symbol = ''BBB'', avg_correlation = Some (2/5)\<rparr>],
    [\<lparr>a_symbol = ''AAA'', avg_correlation = Some (1/5)\<rparr>])"
  by (simp add: identify_uncorrelated_coins_def ex_corr_avg sort_values_def default_threshold_def)

lemma ex_pair_wf: "wf_frame ex_pair"
  by (simp add: wf_frame_def ex_pair_def)

lemma ex_single_wf: "wf_frame ex_single"
  by (simp add: wf_frame_def ex_single_def)

lemma ex_single_summary:
  "calculate_average_changes ex_single (Inr [summary_of 3 (''BTC'', [None, Some (1/2), Some (1/2)])])"
  by (simp add: calculate_average_changes_def summary_rows_def ex_single_def len_frame_def
      sort_values_def numeral_3_eq_3)

lemma ex_single_rows:
  "distance_rows ex_single (calculate_market_average ex_single) =
     Inr ([\<lparr>d_symbol = ''BTC'', d_cumulative_return = 5/4, price_distance = 0,
             market_return = 5/4, relative_distance = Fin 0\<rparr>],
          \<lparr>c_date = [0, 1, 2], c_cols = [(''BTC'', [0, 1/2, 5/4])]\<rparr>, [0, 1/2, 5/4])"
  by (simp add: distance_rows_def calculate_market_average_def ex_single_def len_frame_def
      mean_skipna_def upt_rec cumulative_series_def cumprod_def fillna0_def iloc_last_def
      distance_row_of_def Let_def)

lemma ex_single_pd:
  "calculate_price_distance ex_single (calculate_market_average ex_single) default_threshold
     (Inr ([\<lparr>d_symbol = ''BTC'', d_cumulative_return = 5/4, price_distance = 0,
             market_return = 5/4, relative_distance = Fin 0\<rparr>], [],
          \<lparr>c_date = [0, 1, 2], c_cols = [(''BTC'', [0, 1/2, 5/4])]\<rparr>, [0, 1/2, 5/4]))"
  by (simp add: calculate_price_distance_def ex_single_rows sort_values_def default_threshold_def)

text \<open>
  C3: on a return table with at least one date, the cumulative return that
  \<open>calculate_average_changes\<close> reports for an asset and the final cumulative return that
  \<open>calculate_price_distance\<close> reports for it are both the product of \<open>1 + r\<close> over the
  asset's returns, a missing return counted as \<open>0\<close>, minus one: the tables pair every
  symbol with that value. Over the reals the equality is exact, hence within any tolerance.
\<close>

theorem C3_cumulative_return_compounds:
  assumes "wf_frame returns_df"
    and "f_date returns_df \<noteq> []"
    and "calculate_average_changes returns_df summary_result"
    and "calculate_price_distance returns_df (calculate_market_average returns_df) threshold
           distance_result"
  shows "\<exists>summary_df distance_df out_of_threshold cum_returns_df market_cum_return.
           summary_result = Inr summary_df \<and>
           distance_result = Inr (distance_df, out_of_threshold, cum_returns_df, market_cum_return) \<and>
           mset (map (\<lambda>r. (s_symbol r, cumulative_return r)) summary_df) =
             mset (map (\<lambda>(symbol, col).
                          (symbol, prod_list (map (\<lambda>c. 1 + (case c of None \<Rightarrow> 0 | Some r \<Rightarrow> r)) col) - 1))
                     (f_cols returns_df)) \<and>
           mset (map (\<lambda>r. (d_symbol r, d_cumulative_return r)) distance_df) =
             mset (map (\<lambda>(symbol, col).
                          (symbol, prod_list (map (\<lambda>c. 1 + (case c of None \<Rightarrow> 0 | Some r \<Rightarrow> r)) col) - 1))
                     (f_cols returns_df))"
proof -
  let ?P = "\<lambda>col. prod_list (map (\<lambda>c. 1 + (case c of None \<Rightarrow> 0 | Some r \<Rightarrow> r)) col) - 1"
  let ?n = "len_frame returns_df"
  have n: "?n \<noteq> 0"
    using assms(2) by (simp add: len_frame_def)
  have rows: "summary_rows returns_df = Inr (map (summary_of ?n) (f_cols returns_df))"
    using n by (simp add: summary_rows_def)
  from assms(3) obtain summary_df where
    s1: "summary_result = Inr summary_df" and
    s2: "sort_values annualized_return False (map (summary_of ?n) (f_cols returns_df)) summary_df"
    by (auto simp: calculate_average_changes_def rows split: sum.splits)
  have a: "mset (map (\<lambda>r. (s_symbol r, cumulative_return r)) summary_df) =
           mset (map (\<lambda>(symbol, col). (symbol, ?P col)) (f_cols returns_df))"
  proof -
    have "map (\<lambda>r. (s_symbol r, cumulative_return r)) (map (summary_of ?n) (f_cols returns_df)) =
          map (\<lambda>(symbol, col). (symbol, ?P col)) (f_cols returns_df)"
      by (auto simp: summary_of_cumulative) (simp add: summary_of_def Let_def)
    with sort_values_mset_map [OF s2, of "\<lambda>r. (s_symbol r, cumulative_return r)"]
    show ?thesis by (simp only:)
  qed
  let ?m = "last (cumulative_series (market_avg_return (calculate_market_average returns_df)))"
  let ?cc = "map (\<lambda>(coin, col). (coin, cumulative_series col)) (f_cols returns_df)"
  note dr = distance_rows_Inr [OF assms(2) length_market_avg_return]
  from assms(4) obtain distance_df out_of_threshold cum_returns_df market_cum_return where
    d1: "distance_result = Inr (distance_df, out_of_threshold, cum_returns_df, market_cum_return)" and
    d2: "sort_values (\<lambda>r. Some (price_distance r)) False (map (distance_row_of ?m) ?cc) distance_df"
    by (auto simp: calculate_price_distance_def dr split: sum.splits)
  have b: "mset (map (\<lambda>r. (d_symbol r, d_cumulative_return r)) distance_df) =
           mset (map (\<lambda>(symbol, col). (symbol, ?P col)) (f_cols returns_df))"
  proof -
    have "map (\<lambda>r. (d_symbol r, d_cumulative_return r)) (map (distance_row_of ?m) ?cc) =
          map (\<lambda>(symbol, col). (symbol, ?P col)) (f_cols returns_df)"
    proof -
      have "(d_symbol (distance_row_of ?m (s, cumulative_series col)),
             d_cumulative_return (distance_row_of ?m (s, cumulative_series col))) = (s, ?P col)"
        if "(s, col) \<in> set (f_cols returns_df)" for s col
      proof -
        from wf_frame_length [OF assms(1) that] assms(2) have "col \<noteq> []" by auto
        then show ?thesis
          by (simp add: distance_row_of_cumulative) (simp add: distance_row_of_def Let_def)
      qed
      then show ?thesis by auto
    qed
    with sort_values_mset_map [OF d2, of "\<lambda>r. (d_symbol r, d_cumulative_return r)"]
    show ?thesis by (simp only:)
  qed
  from s1 d1 a b show ?thesis by blast
qed

theorem C3_witness:
  "wf_frame ex_single \<and> f_date ex_single \<noteq> [] \<and>
   calculate_average_changes ex_single
     (Inr [summary_of 3 (''BTC'', [None, Some (1/2), Some (1/2)])]) \<and>
   calculate_price_distance ex_single (calculate_market_average ex_single) default_threshold
     (Inr ([\<lparr>d_symbol = ''BTC'', d_cumulative_return = 5/4, price_distance = 0,
             market_return = 5/4, relative_distance = Fin 0\<rparr>], [],
          \<lparr>c_date = [0, 1, 2], c_cols = [(''BTC'', [0, 1/2, 5/4])]\<rparr>, [0, 1/2, 5/4])) \<and>
   cumulative_return (summary_of 3 (''BTC'', [None, Some (1/2), Some (1/2)])) = 5/4"
proof -
  have ne: "f_date ex_single \<noteq> []" by (simp add: ex_single_def)
  from C3_cumulative_return_compounds [OF ex_single_wf ne ex_single_summary ex_single_pd]
  have "cumulative_return (summary_of 3 (''BTC'', [None, Some (1/2), Some (1/2)])) = 5/4"
    by (simp add: ex_single_def)
  with ex_single_wf ne ex_single_summary ex_single_pd show ?thesis by simp
qed

subsection \<open>Threshold filters\<close>

lemma sort_values_set: "sort_values by ascending rows out \<Longrightarrow> set out = set rows"
  by (metis sort_values_mset mset_eq_setD)

lemma cell_less_iff: "cell_less c t = (\<exists>x. c = Some x \<and> x < t)"
  by (cases c) auto

text \<open>
  C5: both filters compare strictly. The low-correlation table holds exactly the rows of
  the average-correlation table whose value is present and strictly below the threshold,
  so a row whose value equals the threshold is not in it; the out-of-threshold table holds
  exactly the rows of the distance table whose price distance, the absolute difference of
  cumulative return and market return, is strictly above the threshold. The threshold is a
  parameter of both functions (default \<open>0.3\<close>).
\<close>

theorem C5_strict_thresholds:
  assumes "identify_uncorrelated_coins corr_matrix t (avg_corr_df, uncorrelated_coins)"
    and "calculate_price_distance returns_df market_avg_df t'
           (Inr (distance_df, out_of_threshold, cum_returns_df, market_cum_return))"
  shows "set uncorrelated_coins =
           {r \<in> set (avg_correlations corr_matrix). \<exists>x. avg_correlation r = Some x \<and> x < t} \<and>
         (\<forall>r. avg_correlation r = Some t \<longrightarrow> r \<notin> set uncorrelated_coins) \<and>
         set out_of_threshold = {d \<in> set distance_df. t' < price_distance d} \<and>
         (\<forall>d. price_distance d = t' \<longrightarrow> d \<notin> set out_of_threshold) \<and>
         (\<forall>d \<in> set distance_df. price_distance d = \<bar>d_cumulative_return d - market_return d\<bar>)"
proof -
  from assms(1) have
    s: "sort_values avg_correlation True (avg_correlations corr_matrix) avg_corr_df" and
    u: "uncorrelated_coins = filter (\<lambda>r. cell_less (avg_correlation r) t) avg_corr_df"
    by (simp_all add: identify_uncorrelated_coins_def)
  have a: "set uncorrelated_coins =
           {r \<in> set (avg_correlations corr_matrix). \<exists>x. avg_correlation r = Some x \<and> x < t}"
    unfolding u using sort_values_set [OF s] by (auto simp: cell_less_iff)
  have b: "\<forall>r. avg_correlation r = Some t \<longrightarrow> r \<notin> set uncorrelated_coins"
    unfolding u by simp
  from assms(2) obtain rows where
    dr: "distance_rows returns_df market_avg_df = Inr (rows, cum_returns_df, market_cum_return)" and
    sd: "sort_values (\<lambda>r. Some (price_distance r)) False rows distance_df" and
    o: "out_of_threshold = filter (\<lambda>r. t' < price_distance r) distance_df"
    by (auto simp: calculate_price_distance_def split: sum.splits)
  have c: "set out_of_threshold = {d \<in> set distance_df. t' < price_distance d}"
    unfolding o by auto
  have d: "\<forall>d. price_distance d = t' \<longrightarrow> d \<notin> set out_of_threshold"
    unfolding o by simp
  have e: "\<forall>d \<in> set distance_df. price_distance d = \<bar>d_cumulative_return d - market_return d\<bar>"
  proof
    fix d assume "d \<in> set distance_df"
    then have "d \<in> set rows"
      using sort_values_set [OF sd] by simp
    with dr obtain m sc where "d = distance_row_of m sc"
      by (auto simp: distance_rows_def Let_def split: if_splits sum.splits)
    then show "price_distance d = \<bar>d_cumulative_return d - market_return d\<bar>"
      by (simp add: distance_row_of_def Let_def)
  qed
  from a b c d e show ?thesis by blast
qed

theorem C5_witness:
  "identify_uncorrelated_coins ex_corr default_threshold
     ([\<lparr>a_symbol = ''AAA'', avg_correlation = Some (1/5)\<rparr>,
       \<lparr>a_symbol = ''CCC'', avg_correlation = Some (3/10)\<rparr>,
       \<lparr>a_symbol = ''BBB'', avg_correlation = Some (2/5)\<rparr>],
      [\<lparr>a_symbol = ''AAA'', avg_correlation = Some (1/5)\<rparr>]) \<and>
   calculate_price_distance ex_pair (calculate_market_average ex_pair) default_threshold
     (Inr ([ex_row_a, ex_row_b], [ex_row_a], ex_pair_cum, [0, 11/20, 141/200])) \<and>
   \<lparr>a_symbol = ''CCC'', avg_correlation = Some default_threshold\<rparr>
      \<notin> set [\<lparr>a_symbol = ''AAA'', avg_correlation = Some (1/5)\<rparr>] \<and>
   set [ex_row_a] = {d \<in> set [ex_row_a, ex_row_b]. default_threshold < price_distance d}"
  using C5_strict_thresholds [OF ex_corr_id ex_pair_pd] ex_corr_id ex_pair_pd
  by simp

subsection \<open>The comparison payload\<close>

lemma set_update_subset: "set (AList.update k v al) \<subseteq> insert (k, v) (set al)"
  by (induction al) auto

lemma add_coins_ok:
  assumes "\<forall>r \<in> set rows. d_symbol r \<in> fst ` set (c_cols cum)"
    and "\<forall>(s, col) \<in> set (c_cols cum). length col = n"
    and "\<forall>(s, e) \<in> set acc. length (ce_data e) = n"
  shows "\<exists>d. add_coins cum rows acc = Inr d \<and>
             fst ` set d = fst ` set acc \<union> d_symbol ` set rows \<and>
             (\<forall>(s, e) \<in> set d. length (ce_data e) = n)"
  using assms
proof (induction rows arbitrary: acc)
  case Nil
  then show ?case by simp
next
  case (Cons row rows)
  from Cons.prems(1) have "map_of (c_cols cum) (d_symbol row) \<noteq> None"
    by (simp add: map_of_eq_None_iff)
  then obtain series where look: "map_of (c_cols cum) (d_symbol row) = Some series"
    by blast
  then have "(d_symbol row, series) \<in> set (c_cols cum)"
    by (rule map_of_SomeD)
  with Cons.prems(2) have len: "length series = n" by auto
  let ?e = "\<lparr>ce_name = d_symbol row, ce_data = series,
              ce_cumulative_return = d_cumulative_return row,
              ce_price_distance = price_distance row,
              ce_relative_distance = relative_distance row\<rparr>"
  let ?acc = "AList.update (d_symbol row) ?e acc"
  have acc': "\<forall>(s, e) \<in> set ?acc. length (ce_data e) = n"
    using Cons.prems(3) len set_update_subset [of "d_symbol row" ?e acc] by auto
  from Cons.prems(1) have rest: "\<forall>r \<in> set rows. d_symbol r \<in> fst ` set (c_cols cum)"
    by simp
  from Cons.IH [OF rest Cons.prems(2) acc'] obtain d where
    "add_coins cum rows ?acc = Inr d"
    "fst ` set d = fst ` set ?acc \<union> d_symbol ` set rows"
    "\<forall>(s, e) \<in> set d. length (ce_data e) = n"
    by blast
  then show ?case
    by (auto simp: look dom_update)
qed

text \<open>
  C10: for the tables that \<open>calculate_price_distance\<close> returns, \<open>generate_comparison_data\<close>
  succeeds, the symbols under \<open>coins\<close> are exactly the symbols of the out-of-threshold
  table, and \<open>dates\<close>, \<open>market_avg\<close> and the \<open>data\<close> list of every coin have one entry
  per date of the return table.
\<close>

theorem C10_payload_shape:
  assumes "wf_frame returns_df"
    and "calculate_price_distance returns_df (calculate_market_average returns_df) threshold
           (Inr (distance_df, out_of_threshold, cum_returns_df, market_cum_return))"
  shows "\<exists>payload.
           generate_comparison_data cum_returns_df market_cum_return out_of_threshold = Inr payload \<and>
           fst ` set (coins payload) = d_symbol ` set out_of_threshold \<and>
           length (dates payload) = length (f_date returns_df) \<and>
           length (market_avg payload) = length (dates payload) \<and>
           (\<forall>(symbol, entry) \<in> set (coins payload).
              length (ce_data entry) = length (dates payload))"
proof -
  let ?n = "length (f_date returns_df)"
  let ?cc = "map (\<lambda>(coin, col). (coin, cumulative_series col)) (f_cols returns_df)"
  from assms(2) obtain rows where
    dr: "distance_rows returns_df (calculate_market_average returns_df)
           = Inr (rows, cum_returns_df, market_cum_return)" and
    sd: "sort_values (\<lambda>r. Some (price_distance r)) False rows distance_df" and
    o: "out_of_threshold = filter (\<lambda>r. threshold < price_distance r) distance_df"
    by (auto simp: calculate_price_distance_def split: sum.splits)
  from dr have ne: "f_date returns_df \<noteq> []"
    by (auto simp: distance_rows_def Let_def split: if_splits)
  from dr distance_rows_Inr [OF ne length_market_avg_return] have
    rows: "rows = map (distance_row_of (last market_cum_return)) ?cc" and
    cum: "cum_returns_df = \<lparr>c_date = f_date returns_df, c_cols = ?cc\<rparr>" and
    mcum: "market_cum_return =
             cumulative_series (market_avg_return (calculate_market_average returns_df))"
    by auto
  have lm: "length market_cum_return = ?n"
    by (simp add: mcum length_cumulative_series length_market_avg_return)
  have cols: "\<forall>(s, col) \<in> set (c_cols cum_returns_df). length col = ?n"
    using wf_frame_length [OF assms(1)] by (auto simp: cum length_cumulative_series)
  have "d_symbol r \<in> fst ` set (c_cols cum_returns_df)" if "r \<in> set out_of_threshold" for r
  proof -
    from that have "r \<in> set rows"
      using sort_values_set [OF sd] by (simp add: o)
    then have "r \<in> distance_row_of (last market_cum_return) ` set ?cc"
      by (simp only: rows set_map)
    then obtain sc where "sc \<in> set ?cc" "r = distance_row_of (last market_cum_return) sc"
      by blast
    then have "d_symbol r \<in> fst ` set ?cc"
      by (simp add: distance_row_of_def Let_def)
    then show ?thesis
      by (simp add: cum)
  qed
  then have syms: "\<forall>r \<in> set out_of_threshold. d_symbol r \<in> fst ` set (c_cols cum_returns_df)"
    by blast
  have "\<forall>(s, e) \<in> set ([] :: (string \<times> coin_entry) list). length (ce_data e) = ?n"
    by simp
  from add_coins_ok [OF syms cols this] obtain d where
    "add_coins cum_returns_df out_of_threshold [] = Inr d"
    "fst ` set d = d_symbol ` set out_of_threshold"
    "\<forall>(s, e) \<in> set d. length (ce_data e) = ?n"
    by auto
  then show ?thesis
    using lm by (simp add: generate_comparison_data_def cum)
qed

theorem C10_witness:
  "wf_frame ex_pair \<and>
   calculate_price_distance ex_pair (calculate_market_average ex_pair) default_threshold
     (Inr ([ex_row_a, ex_row_b], [ex_row_a], ex_pair_cum, [0, 11/20, 141/200])) \<and>
   (\<exists>payload.
      generate_comparison_data ex_pair_cum [0, 11/20, 141/200] [ex_row_a] = Inr payload \<and>
      fst ` set (coins payload) = {''AAA''} \<and>
      length (dates payload) = 3 \<and>
      length (market_avg payload) = 3 \<and>
      (\<forall>(symbol, entry) \<in> set (coins payload). length (ce_data entry) = 3))"
proof -
  from C10_payload_shape [OF ex_pair_wf ex_pair_pd] obtain payload where
    "generate_comparison_data ex_pair_cum [0, 11/20, 141/200] [ex_row_a] = Inr payload"
    "fst ` set (coins payload) = d_symbol ` set [ex_row_a]"
    "length (dates payload) = length (f_date ex_pair)"
    "length (market_avg payload) = length (dates payload)"
    "\<forall>(symbol, entry) \<in> set (coins payload). length (ce_data entry) = length (dates payload)"
    by blast
  then have "generate_comparison_data ex_pair_cum [0, 11/20, 141/200] [ex_row_a] = Inr payload \<and>
      fst ` set (coins payload) = {''AAA''} \<and>
      length (dates payload) = 3 \<and>
      length (market_avg payload) = 3 \<and>
      (\<forall>(symbol, entry) \<in> set (coins payload). length (ce_data entry) = 3)"
    by (simp add: ex_pair_def ex_row_a_def numeral_3_eq_3)
  with ex_pair_wf ex_pair_pd show ?thesis by blast
qed

subsection \<open>Undefined statistics\<close>






lemma corr_at_pearson:
  "i < length (f_cols f) \<Longrightarrow> j < length (f_cols f) \<Longrightarrow>
   corr_at (create_correlation_matrix f) i j = pearson (snd (f_cols f ! i)) (snd (f_cols f ! j))"
  by (simp add: corr_at_def create_correlation_matrix_def split_beta)










subsection \<open>Order of the summary table\<close>

lemma key_order_desc_nth:
  assumes "sorted_wrt (key_order False) (map by out)" and "i < j" and "j < length out"
  shows "key_order False (by (out ! i)) (by (out ! j))"
  using assms by (auto simp: sorted_wrt_iff_nth_less)

text \<open>
  Every table that \<open>calculate_average_changes\<close> can return has the rows of the summary,
  one per asset, ordered descending by annualized return, with the rows of undefined
  annualized return last. The order among rows of equal annualized return is what
  numpy's quicksort leaves, and the sources of this repository do not determine it.
\<close>

lemma summary_sorted_descending:
  assumes "calculate_average_changes returns_df (Inr summary_df)"
  shows "mset summary_df = mset (map (summary_of (len_frame returns_df)) (f_cols returns_df)) \<and>
         (\<forall>i j a b. i < j \<and> j < length summary_df \<and>
                    annualized_return (summary_df ! i) = Some a \<and>
                    annualized_return (summary_df ! j) = Some b \<longrightarrow> b \<le> a) \<and>
         (\<forall>i j. i < j \<and> j < length summary_df \<and>
                annualized_return (summary_df ! i) = None \<longrightarrow>
                annualized_return (summary_df ! j) = None)"
proof -
  let ?n = "len_frame returns_df"
  from assms have
    s: "sort_values annualized_return False (map (summary_of ?n) (f_cols returns_df)) summary_df"
    by (auto simp: calculate_average_changes_def summary_rows_def Let_def
        split: sum.splits if_splits)
  then have sw: "sorted_wrt (key_order False) (map annualized_return summary_df)"
    by (simp add: sort_values_def)
  have a: "b \<le> a"
    if "i < j" "j < length summary_df" "annualized_return (summary_df ! i) = Some a"
       "annualized_return (summary_df ! j) = Some b" for i j a b
    using key_order_desc_nth [OF sw that(1,2)] that(3,4) by simp
  have b: "annualized_return (summary_df ! j) = None"
    if "i < j" "j < length summary_df" "annualized_return (summary_df ! i) = None" for i j
    using key_order_desc_nth [OF sw that(1,2)] that(3)
    by (cases "annualized_return (summary_df ! j)") simp_all
  from sort_values_mset [OF s] a b show ?thesis by blast
qed

subsection \<open>Market return\<close>

lemma present_row:
  assumes "distinct (map fst cols)"
  shows "finite {(s, r). \<exists>col. (s, col) \<in> set cols \<and> col ! i = Some r} \<and>
         sum_list (present (map (\<lambda>(s, col). col ! i) cols)) =
           (\<Sum>(s, r) \<in> {(s, r). \<exists>col. (s, col) \<in> set cols \<and> col ! i = Some r}. r) \<and>
         length (present (map (\<lambda>(s, col). col ! i) cols)) =
           card {(s, r). \<exists>col. (s, col) \<in> set cols \<and> col ! i = Some r}"
  using assms
proof (induction cols)
  case Nil
  show ?case by simp
next
  case (Cons x cols)
  obtain s c where x: "x = (s, c)" by (cases x)
  let ?P = "{(s, r). \<exists>col. (s, col) \<in> set cols \<and> col ! i = Some r}"
  let ?Q = "{(s', r). \<exists>col. (s', col) \<in> set (x # cols) \<and> col ! i = Some r}"
  from Cons.prems x have d: "distinct (map fst cols)" and s: "s \<notin> fst ` set cols"
    by auto
  note ih = Cons.IH [OF d]
  show ?case
  proof (cases "c ! i")
    case None
    then have "?Q = ?P" by (auto simp: x)
    with ih None show ?thesis by (simp add: x)
  next
    case (Some r)
    then have q: "?Q = insert (s, r) ?P" by (auto simp: x)
    have notin: "(s, r) \<notin> ?P"
      using s by (auto simp: image_iff)
    from ih have fin: "finite ?P" by simp
    show ?thesis
      unfolding q using ih Some fin notin by (simp add: x)
  qed
qed

text \<open>
  C4: for every date of the return table, the market return that
  \<open>calculate_market_average\<close> computes is the arithmetic mean over exactly the assets
  that have a return on that date; an asset without one counts neither in the sum nor in
  the divisor, and the market return is NaN when no asset has one.
\<close>

theorem C4_market_return_is_mean_of_present:
  assumes "wf_frame returns_df" and "i < len_frame returns_df"
  shows "market_avg_return (calculate_market_average returns_df) ! i =
           spec_market_return returns_df i"
proof -
  define P where "P = {(s, r). \<exists>col. (s, col) \<in> set (f_cols returns_df) \<and> col ! i = Some r}"
  define xs where "xs = present (map (\<lambda>(s, col). col ! i) (f_cols returns_df))"
  from assms(1) have d: "distinct (map fst (f_cols returns_df))"
    by (simp add: wf_frame_def)
  from present_row [OF d, of i] have
    fin: "finite P" and sum: "sum_list xs = (\<Sum>(s, r) \<in> P. r)" and len: "length xs = card P"
    unfolding P_def xs_def by blast+
  have spec: "spec_market_return returns_df i =
      (if P = {} then None else Some ((\<Sum>(s, r) \<in> P. r) / real (card P)))"
    unfolding spec_market_return_def P_def by (simp only: Let_def)
  have "market_avg_return (calculate_market_average returns_df) ! i =
      (if xs = [] then None else Some (sum_list xs / real (length xs)))"
    using assms(2) unfolding xs_def
    by (simp add: calculate_market_average_def mean_skipna_def Let_def)
  also have "(xs = []) = (P = {})"
  proof
    assume "xs = []"
    then have "card P = 0" using len by simp
    with fin show "P = {}" by simp
  next
    assume "P = {}"
    then have "length xs = 0" using len by simp
    then show "xs = []" by simp
  qed
  finally show ?thesis
    by (simp only: spec sum len)
qed

lemma ex_market_avg:
  "market_avg_return (calculate_market_average ex_market) = [Some (1/20), Some (1/5)]"
  by (simp add: calculate_market_average_def ex_market_def len_frame_def mean_skipna_def upt_rec)

theorem C4_witness:
  "wf_frame ex_market \<and> 1 < len_frame ex_market \<and>
   market_avg_return (calculate_market_average ex_market) ! 1 = Some (1/5) \<and>
   spec_market_return ex_market 1 = Some (1/5)"
proof -
  have w: "wf_frame ex_market"
    by (simp add: wf_frame_def ex_market_def)
  have l: "1 < len_frame ex_market"
    by (simp add: len_frame_def ex_market_def)
  from C4_market_return_is_mean_of_present [OF w l] ex_market_avg
  have "spec_market_return ex_market 1 = Some (1/5)" by simp
  with w l ex_market_avg show ?thesis by simp
qed

subsection \<open>Correlation matrix\<close>

lemma complete_pairs_swap:
  "complete_pairs cy cx = map (\<lambda>(x, y). (y, x)) (complete_pairs cx cy)"
  by (induction cx cy rule: complete_pairs.induct) auto

lemma complete_pairs_self: "complete_pairs c c = map (\<lambda>x. (x, x)) (present c)"
proof (induction c)
  case Nil
  show ?case by simp
next
  case (Cons a c)
  then show ?case by (cases a) simp_all
qed

lemma dot_Cons: "dot (x # xs) (y # ys) = x * y + dot xs ys"
  by (simp add: dot_def)

lemma dot_Nil: "dot [] ys = 0"
  by (simp add: dot_def)

lemma dot_commute: "dot xs ys = dot ys xs"
proof (induction xs arbitrary: ys)
  case Nil
  show ?case by (simp add: dot_def)
next
  case (Cons x xs)
  then show ?case by (cases ys) (simp_all add: dot_def mult.commute)
qed

lemma dot_self_nonneg: "0 \<le> dot xs xs"
  by (induction xs) (simp_all add: dot_def)

lemma dot_self_zero: "(dot xs xs = 0) = (\<forall>x \<in> set xs. x = 0)"
proof (induction xs)
  case Nil
  show ?case by (simp add: dot_def)
next
  case (Cons x xs)
  have "(x * x + dot xs xs = 0) = (x * x = 0 \<and> dot xs xs = 0)"
    using dot_self_nonneg [of xs] by (simp add: add_nonneg_eq_0_iff)
  with Cons show ?case by (simp add: dot_Cons)
qed

lemma two_le_sum:
  fixes u v w :: real
  assumes "0 \<le> u" "0 \<le> v" "w\<^sup>2 \<le> u * v"
  shows "2 * w \<le> u + v"
proof -
  have "\<bar>w\<bar> = sqrt (w\<^sup>2)" by simp
  also have "\<dots> \<le> sqrt (u * v)"
    using assms(3) by (rule real_sqrt_le_mono)
  also have "\<dots> \<le> (u + v) / 2"
    using assms(1,2) by (rule arith_geo_mean_sqrt)
  finally show ?thesis by simp
qed

lemma cauchy_schwarz_dot:
  "length xs = length ys \<Longrightarrow> (dot xs ys)\<^sup>2 \<le> dot xs xs * dot ys ys"
proof (induction xs ys rule: list_induct2)
  case Nil
  show ?case by (simp add: dot_def)
next
  case (Cons x xs y ys)
  let ?P = "dot xs ys" and ?A = "dot xs xs" and ?B = "dot ys ys"
  have A: "0 \<le> ?A" and B: "0 \<le> ?B" by (rule dot_self_nonneg)+
  have "(x * y * ?P)\<^sup>2 = (x\<^sup>2 * y\<^sup>2) * ?P\<^sup>2"
    by (simp add: power_mult_distrib)
  also have "\<dots> \<le> (x\<^sup>2 * y\<^sup>2) * (?A * ?B)"
    using Cons.IH by (rule mult_left_mono) simp
  also have "\<dots> = (x\<^sup>2 * ?B) * (y\<^sup>2 * ?A)"
    by (simp add: algebra_simps)
  finally have "2 * (x * y * ?P) \<le> x\<^sup>2 * ?B + y\<^sup>2 * ?A"
    using A B by (intro two_le_sum) simp_all
  moreover have "(x * y + ?P)\<^sup>2 = x\<^sup>2 * y\<^sup>2 + 2 * (x * y * ?P) + ?P\<^sup>2"
    by (simp add: power2_eq_square algebra_simps)
  moreover have "(x * x + ?A) * (y * y + ?B) = x\<^sup>2 * y\<^sup>2 + (x\<^sup>2 * ?B + y\<^sup>2 * ?A) + ?A * ?B"
    by (simp add: power2_eq_square algebra_simps)
  ultimately show ?case
    using Cons.IH by (simp add: dot_Cons)
qed

lemma length_deviations: "length (deviations xs) = length xs"
  by (simp add: deviations_def)

lemma pearson_commute: "pearson cx cy = pearson cy cx"
proof -
  let ?ps = "complete_pairs cx cy"
  have sw: "complete_pairs cy cx = map (\<lambda>(x, y). (y, x)) ?ps"
    by (rule complete_pairs_swap)
  have f: "map fst (complete_pairs cy cx) = map snd ?ps"
    and g: "map snd (complete_pairs cy cx) = map fst ?ps"
    and e: "(complete_pairs cy cx = []) = (?ps = [])"
    unfolding sw by (simp_all add: split_beta comp_def)
  let ?dx = "deviations (map fst ?ps)" and ?dy = "deviations (map snd ?ps)"
  have c1: "dot ?dy ?dx = dot ?dx ?dy"
    by (rule dot_commute)
  have c2: "dot ?dy ?dy * dot ?dx ?dx = dot ?dx ?dx * dot ?dy ?dy"
    by (rule mult.commute)
  show ?thesis
    unfolding pearson_def Let_def f g e c1 c2 by (rule refl)
qed

lemma pearson_bounds:
  assumes "pearson cx cy = Some v"
  shows "- 1 \<le> v \<and> v \<le> 1"
proof -
  define dx where "dx = deviations (map fst (complete_pairs cx cy))"
  define dy where "dy = deviations (map snd (complete_pairs cx cy))"
  define dv where "dv = sqrt (dot dx dx * dot dy dy)"
  define P where "P = dot dx dy"
  from assms have d: "dv \<noteq> 0" and v: "v = P / dv"
    unfolding dv_def dx_def dy_def P_def
    by (auto simp: pearson_def Let_def split: if_splits)
  have "0 \<le> dot dx dx * dot dy dy"
    by (intro mult_nonneg_nonneg dot_self_nonneg)
  then have "0 \<le> dv"
    unfolding dv_def by (rule real_sqrt_ge_zero)
  with d have pos: "0 < dv" by simp
  have "length dx = length dy"
    by (simp add: dx_def dy_def length_deviations)
  then have "P\<^sup>2 \<le> dot dx dx * dot dy dy"
    unfolding P_def by (rule cauchy_schwarz_dot)
  then have "sqrt (P\<^sup>2) \<le> dv"
    unfolding dv_def by (rule real_sqrt_le_mono)
  then have "\<bar>P\<bar> \<le> dv" by simp
  then have "\<bar>v\<bar> \<le> 1"
    using pos by (simp add: v)
  then show ?thesis by (simp add: abs_le_iff)
qed

lemma sum_list_const: "\<forall>x \<in> set xs. x = (a::real) \<Longrightarrow> sum_list xs = real (length xs) * a"
  by (induction xs) (simp_all add: algebra_simps)

lemma deviates_iff_distinct:
  fixes xs :: "real list"
  shows "(\<exists>x \<in> set xs. x \<noteq> sum_list xs / real (length xs)) =
         (\<exists>x \<in> set xs. \<exists>y \<in> set xs. x \<noteq> y)"
proof
  assume "\<exists>x \<in> set xs. x \<noteq> sum_list xs / real (length xs)"
  then obtain x where x: "x \<in> set xs" "x \<noteq> sum_list xs / real (length xs)" by blast
  have "\<exists>y \<in> set xs. x \<noteq> y"
  proof (rule ccontr)
    assume "\<not> (\<exists>y \<in> set xs. x \<noteq> y)"
    then have all: "\<forall>y \<in> set xs. y = x" by auto
    from x(1) have "xs \<noteq> []" by auto
    then have "real (length xs) \<noteq> 0" by simp
    with sum_list_const [OF all] have "sum_list xs / real (length xs) = x" by simp
    with x(2) show False by simp
  qed
  with x(1) show "\<exists>x \<in> set xs. \<exists>y \<in> set xs. x \<noteq> y" by blast
next
  assume "\<exists>x \<in> set xs. \<exists>y \<in> set xs. x \<noteq> y"
  then obtain x y where xy: "x \<in> set xs" "y \<in> set xs" and "x \<noteq> y" by blast
  then have "x \<noteq> sum_list xs / real (length xs) \<or> y \<noteq> sum_list xs / real (length xs)"
    by simp
  with xy show "\<exists>x \<in> set xs. x \<noteq> sum_list xs / real (length xs)"
    by blast
qed

lemma pearson_self:
  "pearson c c =
     (if \<exists>x \<in> set (present c). \<exists>y \<in> set (present c). x \<noteq> y then Some 1 else None)"
proof -
  let ?xs = "present c"
  let ?D = "dot (deviations ?xs) (deviations ?xs)"
  have f: "map fst (complete_pairs c c) = ?xs" "map snd (complete_pairs c c) = ?xs"
    and e: "(complete_pairs c c = []) = (?xs = [])"
    by (simp_all add: complete_pairs_self comp_def)
  have D: "0 \<le> ?D" by (rule dot_self_nonneg)
  then have sq: "sqrt (?D * ?D) = ?D" by simp
  have p: "pearson c c = (if ?xs = [] then None else if ?D \<noteq> 0 then Some 1 else None)"
    unfolding pearson_def Let_def f e sq by simp
  have "(?D \<noteq> 0) = (\<exists>x \<in> set ?xs. x \<noteq> sum_list ?xs / real (length ?xs))"
    by (simp add: dot_self_zero deviations_def)
  also have "\<dots> = (\<exists>x \<in> set ?xs. \<exists>y \<in> set ?xs. x \<noteq> y)"
    by (rule deviates_iff_distinct)
  finally have z: "(?D \<noteq> 0) = (\<exists>x \<in> set ?xs. \<exists>y \<in> set ?xs. x \<noteq> y)" .
  show ?thesis
    unfolding p z by auto
qed

text \<open>
  C1 (as the code has it): the correlation matrix is square, labelled by the asset columns
  in order, and symmetric; every entry, on or off the diagonal, is NaN or lies in
  \<open>[-1, 1]\<close>; and a diagonal entry is \<open>1\<close> exactly when the asset's column has two
  present returns that differ, and NaN otherwise (a column of zero variance, or with fewer
  than two present values).
\<close>

theorem C1_correlation_matrix:
  assumes "i < length (f_cols returns_df)" and "j < length (f_cols returns_df)"
  shows "length (create_correlation_matrix returns_df) = length (f_cols returns_df) \<and>
         map fst (create_correlation_matrix returns_df) = map fst (f_cols returns_df) \<and>
         length (snd (create_correlation_matrix returns_df ! j)) = length (f_cols returns_df) \<and>
         corr_at (create_correlation_matrix returns_df) i j =
           corr_at (create_correlation_matrix returns_df) j i \<and>
         (corr_at (create_correlation_matrix returns_df) i j = None \<or>
          (\<exists>v. corr_at (create_correlation_matrix returns_df) i j = Some v \<and> - 1 \<le> v \<and> v \<le> 1)) \<and>
         corr_at (create_correlation_matrix returns_df) i i =
           (if \<exists>x \<in> set (present (snd (f_cols returns_df ! i))).
                 \<exists>y \<in> set (present (snd (f_cols returns_df ! i))). x \<noteq> y
            then Some 1 else None)"
proof -
  let ?M = "create_correlation_matrix returns_df"
  have a: "length ?M = length (f_cols returns_df)"
    by (simp add: create_correlation_matrix_def)
  have b: "map fst ?M = map fst (f_cols returns_df)"
    by (simp add: create_correlation_matrix_def split_beta comp_def)
  have c: "length (snd (?M ! j)) = length (f_cols returns_df)"
    using assms(2) by (simp add: create_correlation_matrix_def split_beta)
  have d: "corr_at ?M i j = corr_at ?M j i"
    unfolding corr_at_pearson [OF assms(1) assms(2)] corr_at_pearson [OF assms(2) assms(1)]
    by (rule pearson_commute)
  have e: "corr_at ?M i j = None \<or> (\<exists>v. corr_at ?M i j = Some v \<and> - 1 \<le> v \<and> v \<le> 1)"
  proof (cases "corr_at ?M i j")
    case None
    then show ?thesis by simp
  next
    case (Some v)
    then have "pearson (snd (f_cols returns_df ! i)) (snd (f_cols returns_df ! j)) = Some v"
      by (simp only: corr_at_pearson [OF assms(1) assms(2)])
    from pearson_bounds [OF this] Some show ?thesis by simp
  qed
  have f: "corr_at ?M i i =
           (if \<exists>x \<in> set (present (snd (f_cols returns_df ! i))).
                 \<exists>y \<in> set (present (snd (f_cols returns_df ! i))). x \<noteq> y
            then Some 1 else None)"
    unfolding corr_at_pearson [OF assms(1) assms(1)] by (rule pearson_self)
  from a b c d e f show ?thesis by blast
qed

theorem C1_witness:
  "(0::nat) < length (f_cols ex_const) \<and> 1 < length (f_cols ex_const) \<and>
   length (create_correlation_matrix ex_const) = 2 \<and>
   map fst (create_correlation_matrix ex_const) = [''AAA'', ''CCC''] \<and>
   corr_at (create_correlation_matrix ex_const) 0 1 =
     corr_at (create_correlation_matrix ex_const) 1 0 \<and>
   corr_at (create_correlation_matrix ex_const) 0 0 = Some 1"
proof -
  have l: "(0::nat) < length (f_cols ex_const)" "1 < length (f_cols ex_const)"
    by (simp_all add: ex_const_def)
  note c = C1_correlation_matrix [OF l(1) l(2)]
  have pr: "present (snd (f_cols ex_const ! 0)) = [1/100, 1/50]"
    by (simp add: ex_const_def)
  have ex: "\<exists>x \<in> set (present (snd (f_cols ex_const ! 0))).
              \<exists>y \<in> set (present (snd (f_cols ex_const ! 0))). x \<noteq> y"
    unfolding pr by (rule bexI [of _ "1/100"], rule bexI [of _ "1/50"]) simp_all
  from c have "corr_at (create_correlation_matrix ex_const) 0 0 =
      (if \<exists>x \<in> set (present (snd (f_cols ex_const ! 0))).
            \<exists>y \<in> set (present (snd (f_cols ex_const ! 0))). x \<noteq> y
       then Some 1 else None)"
    by blast
  with ex have "corr_at (create_correlation_matrix ex_const) 0 0 = Some 1"
    by (simp only: if_True)
  moreover from c have "length (create_correlation_matrix ex_const) = 2"
    "map fst (create_correlation_matrix ex_const) = [''AAA'', ''CCC'']"
    by (simp_all add: ex_const_def)
  moreover from c have "corr_at (create_correlation_matrix ex_const) 0 1 =
     corr_at (create_correlation_matrix ex_const) 1 0"
    by blast
  ultimately show ?thesis
    using l by blast
qed

text \<open>
  C1 as stated fails: an asset whose returns are all \<open>0\<close> (a constant price) has zero
  variance, and its diagonal entry is NaN, not \<open>1.0\<close>.
\<close>

theorem C1_counterexample:
  "wf_frame ex_const \<and> (1::nat) < length (f_cols ex_const) \<and>
   corr_at (create_correlation_matrix ex_const) 1 1 = None"
  by (simp add: wf_frame_def ex_const_def corr_at_def create_correlation_matrix_def pearson_def
      deviations_def dot_def)

end
